theory Spec2Isabelle
  imports Complex_Main
begin

section \<open>Numbers and numpy primitives\<close>

text \<open>
  The Python sources compute with IEEE doubles. The embedding computes with the real
  numbers: rounding, overflow and underflow of finite values are not represented, and
  the columns and arrays that a function receives hold finite numbers, except the array
  of returns of the risk metrics, whose \<open>NaN\<close> entries are kept.
  What a double computation can do and a real one cannot is to leave the finite
  numbers through a division by zero (numpy returns \<open>inf\<close> or \<open>nan\<close> and only warns),
  through the mean of an empty array (\<open>nan\<close>) or through a shifted column (\<open>NaN\<close> in
  the vacated row); that is kept, see \<open>fval\<close> below.
\<close>

datatype py_error = IndexError | ValueError | ZeroDivisionError

text \<open>\<open>np.clip(x, a_min, a_max)\<close> is \<open>minimum(maximum(x, a_min), a_max)\<close>.\<close>

definition np_clip :: "real \<Rightarrow> real \<Rightarrow> real \<Rightarrow> real" where
  "np_clip x a_min a_max = min (max x a_min) a_max"

section \<open>Position sizer (fusion\_model\_backtest.py, lines 12--15)\<close>

text \<open>
  \<^verbatim>\<open>
  def calculate_position_size(predicted_return, max_position=0.5):
      position = 2 * max_position * (1 / (1 + np.exp(-predicted_return)) - 0.5)
      return np.clip(position, -max_position, max_position)
  \<close>
\<close>

definition calculate_position_size :: "real \<Rightarrow> real \<Rightarrow> real" where
  "calculate_position_size predicted_return max_position =
     (let position = 2 * max_position * (1 / (1 + exp (- predicted_return)) - 0.5)
      in np_clip position (- max_position) max_position)"

text \<open>The wording of the specification: the logistic sigmoid and a clamp to an interval.\<close>

definition spec_sigmoid :: "real \<Rightarrow> real" where
  "spec_sigmoid r = 1 / (1 + exp (- r))"

definition spec_clamp :: "real \<Rightarrow> real \<Rightarrow> real \<Rightarrow> real" where
  "spec_clamp lo hi x = (if x < lo then lo else if hi < x then hi else x)"

section \<open>Continuous-position backtest (fusion\_model\_backtest.py, lines 42--59)\<close>

text \<open>
  A pandas column of doubles that may hold \<open>NaN\<close> is a list of \<open>real option\<close>, \<open>None\<close>
  for \<open>NaN\<close>. All columns of one frame share its index, so arithmetic between two
  columns is elementwise.
\<close>

type_synonym fval = "real option"

record row =
  Predicted :: real
  Actual :: real

text \<open>A row with its date, as the number of its day.\<close>

record dated_row = row +
  Date :: nat

record frame =
  position :: "real list"
  position_change :: "fval list"
  transaction_cost :: "fval list"
  daily_return :: "fval list"
  cumulative_return :: "fval list"

text \<open>\<open>s.shift(1)\<close>: every value moves one row down, the first row becomes \<open>NaN\<close>.\<close>

definition shift1 :: "real list \<Rightarrow> fval list" where
  "shift1 xs = (if xs = [] then [] else None # map Some (butlast xs))"

text \<open>\<open>a - b\<close> for a column without and a column with \<open>NaN\<close>.\<close>

definition series_sub :: "real list \<Rightarrow> fval list \<Rightarrow> fval list" where
  "series_sub xs ys = map2 (\<lambda>x y. map_option (\<lambda>y. x - y) y) xs ys"

text \<open>
  \<^verbatim>\<open>df.loc[df.index[0], 'position_change'] = df['position'].iloc[0]\<close>: on an empty
  frame both \<open>iloc[0]\<close> and \<open>index[0]\<close> raise \<open>IndexError\<close>.
\<close>

definition set_first :: "fval list \<Rightarrow> real list \<Rightarrow> py_error + fval list" where
  "set_first change pos = (case pos of [] \<Rightarrow> Inl IndexError | p0 # _ \<Rightarrow> Inr (change[0 := Some p0]))"

text \<open>\<open>s.cumprod()\<close> skips \<open>NaN\<close>: the row stays \<open>NaN\<close> and the running product goes on.\<close>

fun cumprod_from :: "real \<Rightarrow> fval list \<Rightarrow> fval list" where
  "cumprod_from acc [] = []"
| "cumprod_from acc (None # xs) = None # cumprod_from acc xs"
| "cumprod_from acc (Some x # xs) = Some (acc * x) # cumprod_from (acc * x) xs"

definition pd_cumprod :: "fval list \<Rightarrow> fval list" where
  "pd_cumprod xs = cumprod_from 1 xs"

text \<open>
  The strategy columns that \<open>backtest\<close> adds to one frame of rows (the script does the
  same for \<open>df_recent\<close> and for \<open>lstm_recent\<close>):
  \<^verbatim>\<open>
  df['position'] = df['Predicted'].apply(calculate_position_size, max_position=max_position)
  df['position_change'] = df['position'] - df['position'].shift(1)
  df.loc[df.index[0], 'position_change'] = df['position'].iloc[0]
  df['transaction_cost'] = abs(df['position_change']) * transaction_cost
  df['daily_return'] = df['position'] * df['Actual'] / 100.0 - df['transaction_cost']
  df['cumulative_return'] = ((1 + df['daily_return']).cumprod() - 1) * 100
  \<close>
  Reading the files, the date filter, the benchmark and the plots are left out.
\<close>

definition backtest :: "'a row_scheme list \<Rightarrow> real \<Rightarrow> real \<Rightarrow> py_error + frame" where
  "backtest df_recent cost max_position =
     (let pos = map (\<lambda>r. calculate_position_size (Predicted r) max_position) df_recent;
          change0 = series_sub pos (shift1 pos)
      in case set_first change0 pos of
           Inl e \<Rightarrow> Inl e
         | Inr change \<Rightarrow>
             (let tc = map (map_option (\<lambda>d. \<bar>d\<bar> * cost)) change;
                  dr = map2 (\<lambda>(p, a) t. map_option (\<lambda>t. p * a / 100 - t) t)
                         (zip pos (map Actual df_recent)) tc;
                  cr = map (map_option (\<lambda>x. (x - 1) * 100))
                         (pd_cumprod (map (map_option (\<lambda>d. 1 + d)) dr))
              in Inr \<lparr>position = pos, position_change = change, transaction_cost = tc,
                       daily_return = dr, cumulative_return = cr\<rparr>))"

text \<open>
  After the columns the script annualises the result (lines 62--65):
  \<^verbatim>\<open>
  days = (df_recent['date'].max() - df_recent['date'].min()).days
  years = days / 365.0
  annual_return_strategy = (1 + df_recent['cumulative_return'].iloc[-1]/100) ** (1/years) - 1
  \<close>
  \<open>days\<close> is a Python \<open>int\<close> and \<open>years\<close> a Python \<open>float\<close>, so \<open>1/years\<close> raises
  \<open>ZeroDivisionError\<close> when all rows of the frame have one date, as in every frame of one
  row: the script then prints and returns nothing.
\<close>

definition frame_days :: "dated_row list \<Rightarrow> nat" where
  "frame_days df_recent = Max (set (map Date df_recent)) - Min (set (map Date df_recent))"

text \<open>
  The total return that the script prints when it gets there (line 161):
  \<^verbatim>\<open>df_recent['cumulative_return'].iloc[-1]\<close>. The annualised returns themselves, the
  drawdowns, the monthly tables and the plots between line 65 and the print are left out.
\<close>

definition total_return :: "dated_row list \<Rightarrow> real \<Rightarrow> real \<Rightarrow> py_error + fval" where
  "total_return df_recent cost max_position =
     (case backtest df_recent cost max_position of
        Inl e \<Rightarrow> Inl e
      | Inr df \<Rightarrow>
          (let days = frame_days df_recent;
               years = real days / 365
           in if years = 0 then Inl ZeroDivisionError
              else Inr (last (cumulative_return df))))"

text \<open>
  The wording of the specification for the net return of step \<open>i\<close>:
  \<open>p\<^sub>i \<cdot> (actual\<^sub>i / 100) - |p\<^sub>i - p\<^sub>i\<^sub>-\<^sub>1| \<cdot> c\<close>, the position before the first step being \<open>0\<close>.
\<close>

definition spec_net_return :: "'a row_scheme list \<Rightarrow> real \<Rightarrow> real \<Rightarrow> nat \<Rightarrow> real" where
  "spec_net_return rows c m i =
     (let p = (\<lambda>j. calculate_position_size (Predicted (rows ! j)) m);
          prev = (if i = 0 then 0 else p (i - 1))
      in p i * (Actual (rows ! i) / 100) - \<bar>p i - prev\<bar> * c)"

section \<open>Direction-only backtest (fusion\_model\_test-checkpoint.py, lines 212--246)\<close>

text \<open>
  A double that a computation has produced is a \<open>real option\<close> as well: \<open>None\<close> stands for a
  value that is not finite (\<open>inf\<close>, \<open>-inf\<close> or \<open>nan\<close>). numpy divides by zero without
  raising (the module silences the warning), and sums, differences and products with a
  non-finite operand are non-finite again.
\<close>

definition fadd :: "fval \<Rightarrow> fval \<Rightarrow> fval" where
  "fadd x y = (case (x, y) of (Some a, Some b) \<Rightarrow> Some (a + b) | _ \<Rightarrow> None)"

definition fsub :: "fval \<Rightarrow> fval \<Rightarrow> fval" where
  "fsub x y = (case (x, y) of (Some a, Some b) \<Rightarrow> Some (a - b) | _ \<Rightarrow> None)"

definition fmul :: "fval \<Rightarrow> fval \<Rightarrow> fval" where
  "fmul x y = (case (x, y) of (Some a, Some b) \<Rightarrow> Some (a * b) | _ \<Rightarrow> None)"

definition fdiv :: "fval \<Rightarrow> fval \<Rightarrow> fval" where
  "fdiv x y = (case (x, y) of (Some a, Some b) \<Rightarrow> (if b = 0 then None else Some (a / b))
               | _ \<Rightarrow> None)"

text \<open>
  The \<open>predictions\<close> frame: the columns \<open>Predicted\<close> and \<open>Actual\<close>, indexed by date, a
  list of \<open>dated_row\<close>.
\<close>

record trade =
  t_date :: nat
  t_signal :: int
  t_portfolio :: fval
  t_returns :: fval

record engine_state =
  st_portfolio :: fval
  st_position :: int
  st_trades :: "trade list"
  st_daily_returns :: "fval list"

text \<open>
  The body of the loop, for one \<open>i\<close> of \<open>range(1, len(predictions))\<close>:
  \<^verbatim>\<open>
  signal = 1 if predictions.iloc[i]['Predicted'] > predictions.iloc[i-1]['Predicted'] else 0
  price_change = predictions.iloc[i]['Actual'] - predictions.iloc[i-1]['Actual']
  if position != signal:
      cost = portfolio * transaction_cost
      portfolio -= cost
      position = signal
  if position:
      returns = price_change / predictions.iloc[i-1]['Actual']
      portfolio_change = portfolio * returns
      portfolio += portfolio_change
      daily_returns.append(returns)
  else:
      daily_returns.append(0)
  trades.append({'date': predictions.index[i], 'signal': signal,
                 'portfolio': portfolio, 'returns': daily_returns[-1]})
  \<close>
\<close>

definition backtest_step :: "dated_row list \<Rightarrow> real \<Rightarrow> engine_state \<Rightarrow> nat \<Rightarrow> engine_state" where
  "backtest_step predictions cost_rate s i =
     (let signal = (if Predicted (predictions ! i) > Predicted (predictions ! (i - 1))
                    then 1 else 0 :: int);
          price_change = Actual (predictions ! i) - Actual (predictions ! (i - 1));
          flip = (st_position s \<noteq> signal);
          portfolio1 = (if flip
                        then fsub (st_portfolio s) (fmul (st_portfolio s) (Some cost_rate))
                        else st_portfolio s);
          position1 = (if flip then signal else st_position s);
          returns = fdiv (Some price_change) (Some (Actual (predictions ! (i - 1))));
          portfolio2 = (if position1 \<noteq> 0 then fadd portfolio1 (fmul portfolio1 returns)
                        else portfolio1);
          recorded = (if position1 \<noteq> 0 then returns else Some 0)
      in \<lparr>st_portfolio = portfolio2, st_position = position1,
          st_trades = st_trades s @ [\<lparr>t_date = Date (predictions ! i), t_signal = signal,
                                       t_portfolio = portfolio2, t_returns = recorded\<rparr>],
          st_daily_returns = st_daily_returns s @ [recorded]\<rparr>)"

text \<open>
  \<open>BacktestEngine.backtest\<close> up to the end of its loop: the state with which the loop
  leaves, from \<open>portfolio = self.initial_capital\<close>, \<open>position = 0\<close> and two empty
  lists. The summary dictionary computed from that state afterwards is left out.
\<close>

definition BacktestEngine_backtest :: "real \<Rightarrow> dated_row list \<Rightarrow> real \<Rightarrow> engine_state" where
  "BacktestEngine_backtest initial_capital predictions cost_rate =
     foldl (backtest_step predictions cost_rate)
       \<lparr>st_portfolio = Some initial_capital, st_position = 0, st_trades = [],
        st_daily_returns = []\<rparr>
       [1..<length predictions]"

text \<open>
  The wording of the specification for step \<open>i = k + 1\<close>, read off the trade log: the
  capital and the held position before the step are those of the previous record, or the
  initial capital and \<open>0\<close> before the first step.
\<close>

definition capital_before :: "real \<Rightarrow> trade list \<Rightarrow> nat \<Rightarrow> fval" where
  "capital_before initial_capital trades k =
     (if k = 0 then Some initial_capital else t_portfolio (trades ! (k - 1)))"

definition held_before :: "trade list \<Rightarrow> nat \<Rightarrow> int" where
  "held_before trades k = (if k = 0 then 0 else t_signal (trades ! (k - 1)))"

definition direction_step_spec ::
  "real \<Rightarrow> real \<Rightarrow> dated_row list \<Rightarrow> trade list \<Rightarrow> nat \<Rightarrow> bool" where
  "direction_step_spec initial_capital c predictions trades k =
     (let i = k + 1;
          signal = (if Predicted (predictions ! i) > Predicted (predictions ! (i - 1))
                    then 1 else 0 :: int);
          capital = capital_before initial_capital trades k;
          charged = (if held_before trades k \<noteq> signal
                     then fsub capital (fmul capital (Some c)) else capital);
          ret = fdiv (Some (Actual (predictions ! i) - Actual (predictions ! (i - 1))))
                     (Some (Actual (predictions ! (i - 1))))
      in t_signal (trades ! k) = signal
         \<and> (signal = 1 \<longrightarrow> t_portfolio (trades ! k) = fadd charged (fmul charged ret)
                            \<and> t_returns (trades ! k) = ret)
         \<and> (signal = 0 \<longrightarrow> t_portfolio (trades ! k) = charged
                            \<and> t_returns (trades ! k) = Some 0))"

section \<open>Metrics calculator (fusion\_model\_test-checkpoint.py, lines 33--135)\<close>

text \<open>
  The arrays handed to the prediction and the financial metrics are one-dimensional
  arrays of finite doubles: lists of reals. Arrays and scalars that the functions compute
  are \<open>fval\<close>s, since a division by zero and the mean of an empty array are not finite.
\<close>

text \<open>
  A binary operation between two one-dimensional arrays broadcasts: equal lengths go
  elementwise, an array of length one is stretched, any other pair of shapes raises
  \<open>ValueError\<close>.
\<close>

definition broadcast2 :: "('a \<Rightarrow> 'b \<Rightarrow> 'c) \<Rightarrow> 'a list \<Rightarrow> 'b list \<Rightarrow> py_error + 'c list" where
  "broadcast2 f xs ys =
     (if length xs = length ys then Inr (map2 f xs ys)
      else if length xs = 1 then Inr (map (f (hd xs)) ys)
      else if length ys = 1 then Inr (map (\<lambda>x. f x (hd ys)) xs)
      else Inl ValueError)"

definition np_sum :: "fval list \<Rightarrow> fval" where
  "np_sum xs = foldr fadd xs (Some 0)"

text \<open>\<open>np.mean\<close>: the sum over the number of elements; \<open>nan\<close> for an empty array.\<close>

definition np_mean :: "fval list \<Rightarrow> fval" where
  "np_mean xs = fdiv (np_sum xs) (Some (real (length xs)))"

text \<open>\<open>np.mean\<close> of a boolean array counts \<open>True\<close> as \<open>1\<close> and \<open>False\<close> as \<open>0\<close>.\<close>

definition np_mean_bool :: "bool list \<Rightarrow> fval" where
  "np_mean_bool bs = np_mean (map (\<lambda>b. Some (if b then 1 else 0)) bs)"

text \<open>\<open>np.std\<close>: the square root of the mean squared deviation from the mean.\<close>

definition np_std :: "real list \<Rightarrow> fval" where
  "np_std xs =
     (let mu = np_mean (map Some xs);
          dev = map (\<lambda>x. fsub (Some x) mu) xs
      in map_option sqrt (np_mean (map (\<lambda>d. fmul d d) dev)))"

text \<open>\<open>np.diff\<close>: the differences of consecutive elements.\<close>

fun np_diff :: "real list \<Rightarrow> real list" where
  "np_diff (x # y # xs) = (y - x) # np_diff (y # xs)"
| "np_diff xs = []"

text \<open>\<open>np.cumprod\<close> and \<open>np.maximum.accumulate\<close>: running product and running maximum.\<close>

fun cumprod_acc :: "real \<Rightarrow> real list \<Rightarrow> real list" where
  "cumprod_acc acc [] = []"
| "cumprod_acc acc (x # xs) = (acc * x) # cumprod_acc (acc * x) xs"

definition np_cumprod :: "real list \<Rightarrow> real list" where
  "np_cumprod xs = cumprod_acc 1 xs"

fun maximum_acc :: "real \<Rightarrow> real list \<Rightarrow> real list" where
  "maximum_acc m [] = []"
| "maximum_acc m (x # xs) = max m x # maximum_acc (max m x) xs"

definition maximum_accumulate :: "real list \<Rightarrow> real list" where
  "maximum_accumulate xs = (case xs of [] \<Rightarrow> [] | x # ys \<Rightarrow> x # maximum_acc x ys)"

text \<open>
  \<open>np.max\<close> raises \<open>ValueError\<close> on an empty array (the reduction has no identity). It is
  used on the drawdowns, where an entry that is not finite is \<open>+inf\<close> or \<open>nan\<close> (a
  non-negative numerator over zero), so that the maximum is not finite either.
\<close>

definition fmax :: "fval \<Rightarrow> fval \<Rightarrow> fval" where
  "fmax x y = (case (x, y) of (Some a, Some b) \<Rightarrow> Some (max a b) | _ \<Rightarrow> None)"

definition np_max :: "fval list \<Rightarrow> py_error + fval" where
  "np_max xs = (case xs of [] \<Rightarrow> Inl ValueError | x # ys \<Rightarrow> Inr (foldl fmax x ys))"

subsection \<open>Prediction metrics (lines 36--58)\<close>

record prediction_metrics =
  MSE :: fval
  RMSE :: fval
  MAE :: fval
  MAPE :: fval
  R2 :: fval
  Direction_Accuracy :: fval

text \<open>
  \<^verbatim>\<open>
  mse = np.mean(np.square(actual - predicted))
  rmse = np.sqrt(mse)
  mae = np.mean(np.abs(actual - predicted))
  mape = np.mean(np.abs((actual - predicted) / np.abs(actual))) * 100
  ss_total = np.sum(np.square(actual - np.mean(actual)))
  ss_residual = np.sum(np.square(actual - predicted))
  r2 = 1 - (ss_residual / ss_total)
  direction_actual = np.sign(np.diff(actual))
  direction_pred = np.sign(np.diff(predicted))
  direction_accuracy = np.mean(direction_actual == direction_pred) * 100
  \<close>
  The first operation to run, \<open>actual - predicted\<close>, raises when the shapes do not
  broadcast; so does the comparison of the two direction arrays (numpy 1.25 and later).
\<close>

definition calculate_prediction_metrics ::
  "real list \<Rightarrow> real list \<Rightarrow> py_error + prediction_metrics" where
  "calculate_prediction_metrics actual predicted =
     (case broadcast2 (\<lambda>a p. a - p) actual predicted of
        Inl e \<Rightarrow> Inl e
      | Inr err \<Rightarrow>
     (case broadcast2 (\<lambda>e a. fdiv (Some e) (Some \<bar>a\<bar>)) err actual of
        Inl e \<Rightarrow> Inl e
      | Inr ratio \<Rightarrow>
     (case broadcast2 (\<lambda>x y. x = y) (map sgn (np_diff actual)) (map sgn (np_diff predicted)) of
        Inl e \<Rightarrow> Inl e
      | Inr same \<Rightarrow>
          (let mse = np_mean (map (\<lambda>e. Some (e * e)) err);
               rmse = map_option sqrt mse;
               mae = np_mean (map (\<lambda>e. Some \<bar>e\<bar>) err);
               mape = fmul (np_mean (map (map_option abs) ratio)) (Some 100);
               mu = np_mean (map Some actual);
               ss_total = np_sum (map (\<lambda>a. let d = fsub (Some a) mu in fmul d d) actual);
               ss_residual = np_sum (map (\<lambda>e. Some (e * e)) err);
               r2 = fsub (Some 1) (fdiv ss_residual ss_total);
               direction_accuracy = fmul (np_mean_bool same) (Some 100)
           in Inr \<lparr>MSE = mse, RMSE = rmse, MAE = mae, MAPE = mape, R2 = r2,
                    Direction_Accuracy = direction_accuracy\<rparr>))))"

subsection \<open>Financial metrics (lines 86--112)\<close>

record financial_metrics =
  Annual_Return :: fval
  Annual_Volatility :: fval
  Sharpe_Ratio :: fval
  Sortino_Ratio :: fval
  Max_Drawdown :: fval
  Calmar_Ratio :: fval

text \<open>
  \<^verbatim>\<open>
  annual_return = np.mean(returns) * 252
  annual_volatility = np.std(returns) * np.sqrt(252)
  excess_returns = returns - risk_free_rate/252
  sharpe_ratio = np.mean(excess_returns) / (np.std(excess_returns) + 1e-6) * np.sqrt(252)
  cumulative_returns = np.cumprod(1 + returns)
  rolling_max = np.maximum.accumulate(cumulative_returns)
  drawdowns = (rolling_max - cumulative_returns) / rolling_max
  max_drawdown = np.max(drawdowns)
  downside_returns = np.where(returns < 0, returns, 0)
  downside_std = np.std(downside_returns) * np.sqrt(252)
  sortino_ratio = annual_return / (downside_std + 1e-6)
  calmar_ratio = annual_return / (max_drawdown + 1e-6)
  \<close>
  The function has no check of its own on \<open>returns\<close>; the one statement that can raise is
  \<open>np.max(drawdowns)\<close>.
\<close>

definition calculate_financial_metrics :: "real list \<Rightarrow> real \<Rightarrow> py_error + financial_metrics" where
  "calculate_financial_metrics returns risk_free_rate =
     (let annual_return = fmul (np_mean (map Some returns)) (Some 252);
          annual_volatility = fmul (np_std returns) (Some (sqrt 252));
          excess_returns = map (\<lambda>r. r - risk_free_rate / 252) returns;
          sharpe_ratio = fmul (fdiv (np_mean (map Some excess_returns))
                                    (fadd (np_std excess_returns) (Some (1 / 10 ^ 6))))
                              (Some (sqrt 252));
          cumulative_returns = np_cumprod (map (\<lambda>r. 1 + r) returns);
          rolling_max = maximum_accumulate cumulative_returns;
          drawdowns = map2 (\<lambda>m c. fdiv (Some (m - c)) (Some m)) rolling_max cumulative_returns
      in case np_max drawdowns of
           Inl e \<Rightarrow> Inl e
         | Inr max_drawdown \<Rightarrow>
             (let downside_returns = map (\<lambda>r. if r < 0 then r else 0) returns;
                  downside_std = fmul (np_std downside_returns) (Some (sqrt 252));
                  sortino_ratio = fdiv annual_return (fadd downside_std (Some (1 / 10 ^ 6)));
                  calmar_ratio = fdiv annual_return (fadd max_drawdown (Some (1 / 10 ^ 6)))
              in Inr \<lparr>Annual_Return = annual_return, Annual_Volatility = annual_volatility,
                       Sharpe_Ratio = sharpe_ratio, Sortino_Ratio = sortino_ratio,
                       Max_Drawdown = max_drawdown, Calmar_Ratio = calmar_ratio\<rparr>))"

subsection \<open>Risk metrics (lines 115--135)\<close>

text \<open>
  The evaluator hands the risk metrics \<open>results['Returns'].values\<close>, the \<open>pct_change()\<close> of
  the \<open>Actual\<close> column, whose first entry is always \<open>NaN\<close>. An entry of the \<open>returns\<close> array
  is therefore an \<open>fval\<close>, \<open>None\<close> being \<open>NaN\<close>. (An infinite entry needs a price of exactly
  zero and is not represented.)
\<close>






section \<open>Properties of the position sizer\<close>

lemma np_clip_mono: "x \<le> y \<Longrightarrow> np_clip x lo hi \<le> np_clip y lo hi"
  unfolding np_clip_def by (intro min.mono max.mono) simp_all

lemma sigmoid_bounds: "0 < 1 / (1 + exp (- r :: real))" "1 / (1 + exp (- r :: real)) < 1"
proof -
  have e: "0 < exp (- r)" by simp
  then show "0 < 1 / (1 + exp (- r))" by (simp add: add_pos_pos)
  from e show "1 / (1 + exp (- r)) < 1" by (simp add: add_pos_pos)
qed

lemma sigmoid_mono:
  assumes "r1 \<le> (r2 :: real)"
  shows "1 / (1 + exp (- r1)) \<le> 1 / (1 + exp (- r2))"
proof -
  have "exp (- r2) \<le> exp (- r1)" using assms by simp
  moreover have "0 < 1 + exp (- r2)" by (simp add: add_pos_pos)
  ultimately show ?thesis by (intro divide_left_mono) (auto simp: add_pos_pos)
qed

lemma scaled_bounds:
  fixes s m :: real
  assumes "0 < s" "s < 1" "0 < m"
  shows "- m < 2 * m * (s - 0.5)" "2 * m * (s - 0.5) < m"
proof -
  have eq: "2 * m * (s - 0.5) = 2 * (m * s) - m"
    by (simp add: algebra_simps)
  have "0 < m * s"
    using assms by simp
  then show "- m < 2 * m * (s - 0.5)"
    unfolding eq by linarith
  have "m * s < m * 1"
    using assms by (intro mult_strict_left_mono)
  then show "2 * m * (s - 0.5) < m"
    unfolding eq by linarith
qed

lemma raw_position_bounds:
  assumes "0 < (m :: real)"
  shows "- m < 2 * m * (1 / (1 + exp (- r)) - 0.5)" "2 * m * (1 / (1 + exp (- r)) - 0.5) < m"
  using scaled_bounds [OF sigmoid_bounds [of r] assms] by blast+

text \<open>
  Claim C3. For every real predicted return \<open>r\<close> and every maximum position \<open>m > 0\<close> the
  position sizer returns \<open>2 m (\<sigma>(r) - 0.5)\<close> clamped to \<open>[-m, m]\<close>, with \<open>\<sigma>\<close> the
  logistic sigmoid; so its output lies in \<open>[-m, m]\<close>, and at \<open>r = 0\<close> it is exactly \<open>0\<close>.
\<close>

theorem position_size_clamped_sigmoid:
  assumes "0 < m"
  shows "calculate_position_size r m = spec_clamp (- m) m (2 * m * (spec_sigmoid r - 0.5))
       \<and> - m \<le> calculate_position_size r m
       \<and> calculate_position_size r m \<le> m
       \<and> calculate_position_size 0 m = 0"
  using assms raw_position_bounds [OF assms, of r]
  by (simp add: calculate_position_size_def np_clip_def spec_clamp_def spec_sigmoid_def
      Let_def min_def max_def)

theorem position_size_clamped_sigmoid_witness:
  "(0::real) < 1/2
   \<and> calculate_position_size 3 (1/2) = spec_clamp (- (1/2)) (1/2) (2 * (1/2) * (spec_sigmoid 3 - 0.5))
   \<and> - (1/2) \<le> calculate_position_size 3 (1/2)
   \<and> calculate_position_size 3 (1/2) \<le> 1/2
   \<and> calculate_position_size 0 (1/2) = 0"
  using position_size_clamped_sigmoid [of "1/2" 3] by simp

text \<open>
  Claim C7. For every fixed maximum position \<open>m > 0\<close> and all reals \<open>r1 \<le> r2\<close>, the
  position sizer's output at \<open>r1\<close> is at most its output at \<open>r2\<close>.
\<close>

theorem position_size_mono:
  assumes "0 < m" and "r1 \<le> r2"
  shows "calculate_position_size r1 m \<le> calculate_position_size r2 m"
proof -
  let ?p = "\<lambda>r. 2 * m * (1 / (1 + exp (- r)) - 0.5)"
  have "1 / (1 + exp (- r1)) - 0.5 \<le> 1 / (1 + exp (- r2)) - 0.5"
    using sigmoid_mono [OF assms(2)] by simp
  then have "?p r1 \<le> ?p r2"
    using assms(1) by (intro mult_left_mono) simp_all
  then show ?thesis
    unfolding calculate_position_size_def Let_def by (rule np_clip_mono)
qed

theorem position_size_mono_witness:
  "(0::real) < 1/2 \<and> (0::real) \<le> 1
   \<and> calculate_position_size 0 (1/2) \<le> calculate_position_size 1 (1/2)"
  using position_size_mono [of "1/2" 0 1] by simp


section \<open>Properties of the continuous-position backtest\<close>

lemma position_change_nth:
  assumes "i < length ps"
  shows "(series_sub ps (shift1 ps))[0 := Some (ps ! 0)] ! i
         = Some (ps ! i - (if i = 0 then 0 else ps ! (i - 1)))"
proof (cases i)
  case 0
  then show ?thesis using assms by (simp add: series_sub_def shift1_def)
next
  case (Suc j)
  then have ne: "ps \<noteq> []" using assms by auto
  have "j < length (butlast ps)" using assms Suc by simp
  then show ?thesis
    using assms Suc ne by (simp add: series_sub_def shift1_def nth_butlast)
qed

lemma position_change_length: "length (series_sub ps (shift1 ps)) = length ps"
  by (simp add: series_sub_def shift1_def)

lemma cumprod_from_length: "length (cumprod_from acc xs) = length xs"
  by (induction acc xs rule: cumprod_from.induct) simp_all

lemma cumprod_from_Some:
  "i < length xs \<Longrightarrow> cumprod_from acc (map Some xs) ! i = Some (acc * prod_list (take (Suc i) xs))"
proof (induction xs arbitrary: acc i)
  case Nil
  then show ?case by simp
next
  case (Cons x xs)
  then show ?case by (cases i) (simp_all add: mult.assoc)
qed

lemma backtest_columns:
  assumes "rows \<noteq> []"
  shows "\<exists>df. backtest rows c m = Inr df
           \<and> daily_return df = map (\<lambda>i. Some (spec_net_return rows c m i)) [0..<length rows]
           \<and> cumulative_return df = map (map_option (\<lambda>x. (x - 1) * 100))
                 (pd_cumprod (map (map_option (\<lambda>d. 1 + d)) (daily_return df)))"
proof -
  define ps where "ps = map (\<lambda>r. calculate_position_size (Predicted r) m) rows"
  define change where "change = (series_sub ps (shift1 ps))[0 := Some (ps ! 0)]"
  define tc where "tc = map (map_option (\<lambda>d. \<bar>d\<bar> * c)) change"
  define dr where "dr = map2 (\<lambda>(p, a) t. map_option (\<lambda>t. p * a / 100 - t) t)
                         (zip ps (map Actual rows)) tc"
  define cr where "cr = map (map_option (\<lambda>x. (x - 1) * 100))
                         (pd_cumprod (map (map_option (\<lambda>d. 1 + d)) dr))"
  have len: "length ps = length rows" "length change = length rows" "length tc = length rows"
    by (simp_all add: ps_def change_def tc_def position_change_length)
  have ne: "ps \<noteq> []" using assms by (simp add: ps_def)
  then have sf: "set_first (series_sub ps (shift1 ps)) ps = Inr change"
    by (cases ps) (simp_all add: set_first_def change_def)
  have bt: "backtest rows c m = Inr \<lparr>position = ps, position_change = change,
              transaction_cost = tc, daily_return = dr, cumulative_return = cr\<rparr>"
    unfolding backtest_def Let_def ps_def [symmetric] sf sum.case
    unfolding tc_def [symmetric]
    unfolding dr_def [symmetric]
    unfolding cr_def [symmetric] ..
  have "dr = map (\<lambda>i. Some (spec_net_return rows c m i)) [0..<length rows]"
  proof (rule nth_equalityI)
    show "length dr = length (map (\<lambda>i. Some (spec_net_return rows c m i)) [0..<length rows])"
      by (simp add: dr_def len)
  next
    fix i assume "i < length dr"
    then have i: "i < length rows" by (simp add: dr_def len)
    then have ips: "i < length ps" by (simp add: len)
    have ch: "change ! i = Some (ps ! i - (if i = 0 then 0 else ps ! (i - 1)))"
      unfolding change_def by (rule position_change_nth [OF ips])
    have pi: "\<And>j. j < length rows \<Longrightarrow> ps ! j = calculate_position_size (Predicted (rows ! j)) m"
      by (simp add: ps_def)
    have im: "i \<noteq> 0 \<Longrightarrow> i - 1 < length rows" using i by simp
    show "dr ! i = map (\<lambda>i. Some (spec_net_return rows c m i)) [0..<length rows] ! i"
      using i ch im by (simp add: dr_def tc_def len spec_net_return_def Let_def pi)
  qed
  with bt show ?thesis by (simp add: cr_def)
qed

text \<open>
  Claim C1. In the continuous-position backtest, for every sequence of rows, every cost
  rate \<open>c\<close> and every maximum position \<open>m\<close>, the net return recorded at step \<open>i\<close> is
  \<open>p\<^sub>i \<cdot> (actual\<^sub>i / 100) - |p\<^sub>i - p\<^sub>i\<^sub>-\<^sub>1| \<cdot> c\<close>, where \<open>p\<^sub>i\<close> is the position sizer's output
  for \<open>predicted\<^sub>i\<close> and the position before the first step is \<open>0\<close>. No row is
  \<open>NaN\<close>; on an empty frame the script raises \<open>IndexError\<close> and records nothing.
\<close>

theorem backtest_net_return:
  "(rows = [] \<longrightarrow> backtest rows c m = Inl IndexError)
   \<and> (rows \<noteq> [] \<longrightarrow>
        (\<exists>df. backtest rows c m = Inr df
            \<and> length (daily_return df) = length rows
            \<and> (\<forall>i<length rows.
                   daily_return df ! i =
                     Some (calculate_position_size (Predicted (rows ! i)) m * (Actual (rows ! i) / 100)
                           - \<bar>calculate_position_size (Predicted (rows ! i)) m
                              - (if i = 0 then 0
                                 else calculate_position_size (Predicted (rows ! (i - 1))) m)\<bar> * c))))"
proof (intro conjI impI)
  assume "rows = []"
  then show "backtest rows c m = Inl IndexError"
    by (simp add: backtest_def set_first_def)
next
  assume "rows \<noteq> []"
  from backtest_columns [OF this, of c m] obtain df where
    df: "backtest rows c m = Inr df"
      "daily_return df = map (\<lambda>i. Some (spec_net_return rows c m i)) [0..<length rows]"
    by blast
  show "\<exists>df. backtest rows c m = Inr df
            \<and> length (daily_return df) = length rows
            \<and> (\<forall>i<length rows.
                   daily_return df ! i =
                     Some (calculate_position_size (Predicted (rows ! i)) m * (Actual (rows ! i) / 100)
                           - \<bar>calculate_position_size (Predicted (rows ! i)) m
                              - (if i = 0 then 0
                                 else calculate_position_size (Predicted (rows ! (i - 1))) m)\<bar> * c))"
    using df by (intro exI [of _ df]) (simp add: spec_net_return_def Let_def)
qed

theorem backtest_net_return_witness:
  "[\<lparr>Predicted = 0, Actual = 3\<rparr>, \<lparr>Predicted = 2, Actual = 5\<rparr>] \<noteq> []
   \<and> (\<exists>df. backtest [\<lparr>Predicted = 0, Actual = 3\<rparr>, \<lparr>Predicted = 2, Actual = 5\<rparr>] (2 / 1000) (1 / 2) = Inr df
          \<and> length (daily_return df) = 2
          \<and> daily_return df ! 0 = Some (calculate_position_size 0 (1 / 2) * (3 / 100)
                                        - \<bar>calculate_position_size 0 (1 / 2) - 0\<bar> * (2 / 1000))
          \<and> daily_return df ! 1 = Some (calculate_position_size 2 (1 / 2) * (5 / 100)
                      - \<bar>calculate_position_size 2 (1 / 2) - calculate_position_size 0 (1 / 2)\<bar> * (2 / 1000)))"
proof -
  let ?rows = "[\<lparr>Predicted = 0, Actual = 3\<rparr>, \<lparr>Predicted = 2, Actual = 5\<rparr>]"
  from backtest_net_return [of ?rows "2 / 1000" "1 / 2"] obtain df where
    df: "backtest ?rows (2 / 1000) (1 / 2) = Inr df" "length (daily_return df) = length ?rows"
      "\<forall>i<length ?rows. daily_return df ! i =
          Some (calculate_position_size (Predicted (?rows ! i)) (1 / 2) * (Actual (?rows ! i) / 100)
                - \<bar>calculate_position_size (Predicted (?rows ! i)) (1 / 2)
                   - (if i = 0 then 0
                      else calculate_position_size (Predicted (?rows ! (i - 1))) (1 / 2))\<bar> * (2 / 1000))"
    by blast
  from df(3) have "daily_return df ! 0 = Some (calculate_position_size 0 (1 / 2) * (3 / 100)
                                        - \<bar>calculate_position_size 0 (1 / 2) - 0\<bar> * (2 / 1000))"
    by simp
  moreover from df(3) have "daily_return df ! 1 = Some (calculate_position_size 2 (1 / 2) * (5 / 100)
                      - \<bar>calculate_position_size 2 (1 / 2) - calculate_position_size 0 (1 / 2)\<bar> * (2 / 1000))"
    by simp
  ultimately show ?thesis
    using df(1,2) by simp
qed

lemma map_upt_nth: "map (\<lambda>i. f (xs ! i)) [0..<length xs] = map f xs"
  by (rule nth_equalityI) simp_all

lemma cumulative_return_zero_cost:
  assumes "rows \<noteq> []"
  shows "\<exists>df. backtest rows 0 m = Inr df
           \<and> last (cumulative_return df) =
               Some ((prod_list (map (\<lambda>r. 1 + calculate_position_size (Predicted r) m * (Actual r / 100)) rows) - 1) * 100)"
proof -
  let ?f = "\<lambda>r. 1 + calculate_position_size (Predicted r) m * (Actual r / 100)"
  from backtest_columns [OF assms, of 0 m] obtain df where
    df: "backtest rows 0 m = Inr df"
      "daily_return df = map (\<lambda>i. Some (spec_net_return rows 0 m i)) [0..<length rows]"
      "cumulative_return df = map (map_option (\<lambda>x. (x - 1) * 100))
                 (pd_cumprod (map (map_option (\<lambda>d. 1 + d)) (daily_return df)))"
    by blast
  have "map (map_option (\<lambda>d. 1 + d)) (daily_return df) = map Some (map (\<lambda>i. ?f (rows ! i)) [0..<length rows])"
    by (simp add: df(2) spec_net_return_def Let_def)
  also have "\<dots> = map Some (map ?f rows)"
    using map_upt_nth [of ?f rows] by simp
  finally have one: "map (map_option (\<lambda>d. 1 + d)) (daily_return df) = map Some (map ?f rows)" .
  have len: "length (cumulative_return df) = length rows"
    by (simp add: df(3) pd_cumprod_def cumprod_from_length df(2))
  then have ne: "cumulative_return df \<noteq> []"
    using assms by auto
  have n1: "length rows - 1 < length (map ?f rows)"
    using assms by simp
  have "last (cumulative_return df) = cumulative_return df ! (length rows - 1)"
    using ne len by (simp add: last_conv_nth)
  also have "\<dots> = map_option (\<lambda>x. (x - 1) * 100) (cumprod_from 1 (map Some (map ?f rows)) ! (length rows - 1))"
    using assms by (simp add: df(3) pd_cumprod_def one cumprod_from_length)
  also have "\<dots> = Some ((prod_list (map ?f rows) - 1) * 100)"
    using assms by (simp only: cumprod_from_Some [OF n1]) simp
  finally show ?thesis
    using df(1) by blast
qed

lemma total_return_zero_cost:
  assumes "rows \<noteq> []"
  shows "total_return rows 0 m =
           (if frame_days rows = 0 then Inl ZeroDivisionError
            else Inr (Some ((prod_list (map (\<lambda>r. 1 + calculate_position_size (Predicted r) m * (Actual r / 100)) rows) - 1) * 100)))"
proof -
  from cumulative_return_zero_cost [OF assms, of m] obtain df where
    "backtest rows 0 m = Inr df"
    "last (cumulative_return df) =
       Some ((prod_list (map (\<lambda>r. 1 + calculate_position_size (Predicted r) m * (Actual r / 100)) rows) - 1) * 100)"
    by blast
  then show ?thesis
    by (simp add: total_return_def Let_def)
qed

lemma position_size_one_bounds:
  "1 / 3 < calculate_position_size 1 1" "calculate_position_size 1 1 < 1"
proof -
  define s :: real where "s = 1 / (1 + exp (- 1))"
  have e2: "(2::real) < exp 1"
    by (metis exp_less_mono exp_ln_iff ln_2_less_1 one_add_one zero_less_two)
  have "exp (- 1 :: real) = 1 / exp 1"
    by (simp add: exp_minus inverse_eq_divide)
  also have "\<dots> < 1 / 2"
    using e2 by (simp add: field_simps)
  finally have "1 + exp (- 1 :: real) < 3 / 2"
    by simp
  moreover have "0 < 1 + exp (- 1 :: real)"
    by (simp add: add_pos_pos)
  ultimately have s: "2 / 3 < s"
    unfolding s_def by (simp add: field_simps)
  have b: "- 1 < 2 * 1 * (s - 0.5)" "2 * 1 * (s - 0.5) < 1"
    unfolding s_def using raw_position_bounds [of 1 1] by simp_all
  have eq: "calculate_position_size 1 1 = 2 * 1 * (s - 0.5)"
    using b by (simp add: calculate_position_size_def np_clip_def Let_def min_def max_def s_def)
  show "1 / 3 < calculate_position_size 1 1"
    unfolding eq using s by simp
  show "calculate_position_size 1 1 < 1"
    unfolding eq using b(2) .
qed

lemma square_between:
  fixes u lo hi :: real
  assumes "0 \<le> lo" "lo < u" "u < hi"
  shows "lo * lo < u * u" "u * u < hi * hi"
proof -
  have "0 < u" using assms by linarith
  show "lo * lo < u * u"
    using assms \<open>0 < u\<close> by (intro mult_strict_mono') simp_all
  show "u * u < hi * hi"
    using assms \<open>0 < u\<close> by (intro mult_strict_mono) simp_all
qed

text \<open>
  Claim C4 as stated (with \<open>c = 0\<close>, \<open>m = 1\<close> and predictions equal to the return series
  \<open>r\<close>, the cumulative return is \<open>\<Prod>(1 + r\<^sub>i) - 1\<close>) fails for the two-day series
  \<open>r = [1, 1]\<close>, where \<open>\<Prod>(1 + r\<^sub>i) - 1 = 3\<close>: the position is \<open>2(\<sigma>(1) - 0.5) < 1\<close>, never the
  full exposure. It fails whether the \<open>Actual\<close> column holds the return in percent (\<open>100\<close>) or
  the return itself (\<open>1\<close>), and whether the result is read as a fraction or as the
  percentage the script stores.
\<close>

theorem total_return_not_compounded_counterexample:
  "total_return [\<lparr>Predicted = 1, Actual = 100, Date = 0\<rparr>, \<lparr>Predicted = 1, Actual = 100, Date = 1\<rparr>] 0 1
      \<noteq> Inr (Some ((1 + 1) * (1 + 1) - 1))
   \<and> total_return [\<lparr>Predicted = 1, Actual = 100, Date = 0\<rparr>, \<lparr>Predicted = 1, Actual = 100, Date = 1\<rparr>] 0 1
      \<noteq> Inr (Some (((1 + 1) * (1 + 1) - 1) * 100))
   \<and> total_return [\<lparr>Predicted = 1, Actual = 1, Date = 0\<rparr>, \<lparr>Predicted = 1, Actual = 1, Date = 1\<rparr>] 0 1
      \<noteq> Inr (Some ((1 + 1) * (1 + 1) - 1))
   \<and> total_return [\<lparr>Predicted = 1, Actual = 1, Date = 0\<rparr>, \<lparr>Predicted = 1, Actual = 1, Date = 1\<rparr>] 0 1
      \<noteq> Inr (Some (((1 + 1) * (1 + 1) - 1) * 100))"
proof -
  define p where "p = calculate_position_size 1 1"
  define u where "u = 1 + p"
  define w where "w = 1 + p * (1 / 100)"
  have p: "1 / 3 < p" "p < 1"
    unfolding p_def by (rule position_size_one_bounds)+
  have a: "total_return [\<lparr>Predicted = 1, Actual = 100, Date = 0\<rparr>, \<lparr>Predicted = 1, Actual = 100, Date = 1\<rparr>] 0 1
             = Inr (Some ((u * u - 1) * 100))"
    by (simp add: total_return_zero_cost frame_days_def u_def p_def)
  have b: "total_return [\<lparr>Predicted = 1, Actual = 1, Date = 0\<rparr>, \<lparr>Predicted = 1, Actual = 1, Date = 1\<rparr>] 0 1
             = Inr (Some ((w * w - 1) * 100))"
    by (simp add: total_return_zero_cost frame_days_def w_def p_def)
  have u: "4 / 3 < u" "u < 2" using p by (simp_all add: u_def)
  have w: "1 < w" "w < 101 / 100" using p by (simp_all add: w_def)
  have uu: "(4 / 3) * (4 / 3) < u * u" "u * u < 2 * 2"
    using square_between [of "4 / 3" u 2] u by simp_all
  have ww: "w * w < (101 / 100) * (101 / 100)"
    using square_between [of 1 w "101 / 100"] w by simp
  have "(u * u - 1) * 100 \<noteq> 3" "(u * u - 1) * 100 \<noteq> 300"
    using uu by simp_all
  moreover have "(w * w - 1) * 100 \<noteq> 3" "(w * w - 1) * 100 \<noteq> 300"
    using ww by simp_all
  ultimately show ?thesis
    unfolding a b by simp
qed

text \<open>
  Claim C4, amended. For every non-empty return series \<open>r\<close>, with \<open>c = 0\<close>, \<open>m = 1\<close>,
  predictions equal to \<open>r\<close> and \<open>Actual\<close> holding \<open>r\<close> in percent: when the rows span at least
  one day the final cumulative return is \<open>(\<Prod>(1 + p\<^sub>i \<cdot> r\<^sub>i) - 1) \<cdot> 100\<close>, where \<open>p\<^sub>i\<close> is the
  position sizer's output for \<open>r\<^sub>i\<close>; when all rows have one date (as a single row has) the
  script raises \<open>ZeroDivisionError\<close> in its annualisation and gives no result.
\<close>

theorem total_return_no_cost:
  assumes "rows \<noteq> []" and "\<forall>row \<in> set rows. Actual row = 100 * Predicted row"
  shows "total_return rows 0 1 =
           (if frame_days rows = 0 then Inl ZeroDivisionError
            else Inr (Some ((prod_list (map (\<lambda>row. 1 + calculate_position_size (Predicted row) 1 * Predicted row) rows) - 1) * 100)))"
proof -
  have eq: "map (\<lambda>r. 1 + calculate_position_size (Predicted r) 1 * (Actual r / 100)) rows
          = map (\<lambda>row. 1 + calculate_position_size (Predicted row) 1 * Predicted row) rows"
  proof (rule map_cong [OF refl])
    fix row assume "row \<in> set rows"
    then have "Actual row = 100 * Predicted row"
      using assms(2) by blast
    then show "1 + calculate_position_size (Predicted row) 1 * (Actual row / 100)
                 = 1 + calculate_position_size (Predicted row) 1 * Predicted row"
      by simp
  qed
  show ?thesis
    unfolding total_return_zero_cost [OF assms(1), of 1] eq by (rule refl)
qed

theorem total_return_no_cost_witness:
  "Actual \<lparr>Predicted = 0, Actual = 0, Date = 0\<rparr> = 100 * Predicted \<lparr>Predicted = 0, Actual = 0, Date = 0\<rparr>
   \<and> Actual \<lparr>Predicted = 1 / 10, Actual = 10, Date = 1\<rparr> = 100 * Predicted \<lparr>Predicted = 1 / 10, Actual = 10, Date = 1\<rparr>
   \<and> total_return [\<lparr>Predicted = 0, Actual = 0, Date = 0\<rparr>, \<lparr>Predicted = 1 / 10, Actual = 10, Date = 1\<rparr>] 0 1 =
           Inr (Some ((((1 + calculate_position_size 0 1 * 0) * (1 + calculate_position_size (1 / 10) 1 * (1 / 10))) - 1) * 100))
   \<and> total_return [\<lparr>Predicted = 1 / 10, Actual = 10, Date = 1\<rparr>] 0 1 = Inl ZeroDivisionError"
proof -
  let ?rows = "[\<lparr>Predicted = 0, Actual = 0, Date = 0\<rparr>, \<lparr>Predicted = 1 / 10, Actual = 10, Date = 1\<rparr>]"
  let ?one = "[\<lparr>Predicted = 1 / 10, Actual = 10, Date = 1\<rparr>]"
  have h: "?rows \<noteq> []" "\<forall>row \<in> set ?rows. Actual row = 100 * Predicted row"
    by simp_all
  have k: "?one \<noteq> []" "\<forall>row \<in> set ?one. Actual row = 100 * Predicted row"
    by simp_all
  from total_return_no_cost [OF h] total_return_no_cost [OF k] show ?thesis
    by (simp add: frame_days_def)
qed

section \<open>Properties of the direction-only backtest\<close>

lemma backtest_step_trades:
  "st_trades (backtest_step p c s i) =
     st_trades s @ [\<lparr>t_date = Date (p ! i),
                     t_signal = (if Predicted (p ! i) > Predicted (p ! (i - 1)) then 1 else 0),
                     t_portfolio = st_portfolio (backtest_step p c s i),
                     t_returns = last (st_daily_returns (backtest_step p c s i))\<rparr>]"
  by (simp add: backtest_step_def Let_def)

lemma backtest_step_position:
  "st_position (backtest_step p c s i) =
     (if Predicted (p ! i) > Predicted (p ! (i - 1)) then 1 else 0)"
  by (simp add: backtest_step_def Let_def)

lemma foldl_step_length:
  "length (st_trades (foldl (backtest_step p c) s js)) = length (st_trades s) + length js"
  by (induction js arbitrary: s) (simp_all add: backtest_step_trades)

lemma nth_snoc_at: "length xs = j \<Longrightarrow> (xs @ [t]) ! j = t"
  by (simp add: nth_append)

lemma upt_one_length: "[1..<length (p :: 'a list)] = [1..<Suc (length p - 1)]"
  by (cases p) simp_all

lemma direction_step_spec_append:
  assumes "k < length trades"
  shows "direction_step_spec C0 c p (trades @ [t]) k = direction_step_spec C0 c p trades k"
proof -
  have "(trades @ [t]) ! k = trades ! k"
    using assms by (simp add: nth_append)
  moreover have "k \<noteq> 0 \<Longrightarrow> (trades @ [t]) ! (k - 1) = trades ! (k - 1)"
    using assms by (simp add: nth_append)
  ultimately show ?thesis
    by (simp add: direction_step_spec_def capital_before_def held_before_def)
qed

lemma backtest_step_spec:
  assumes "length (st_trades s) = j"
    and "st_portfolio s = capital_before C0 (st_trades s) j"
    and "st_position s = held_before (st_trades s) j"
  shows "direction_step_spec C0 c p (st_trades (backtest_step p c s (Suc j))) j"
proof -
  have a: "capital_before C0 (st_trades s @ [t]) j = capital_before C0 (st_trades s) j" for t
    using assms(1) by (auto simp: capital_before_def nth_append)
  have b: "held_before (st_trades s @ [t]) j = held_before (st_trades s) j" for t
    using assms(1) by (auto simp: held_before_def nth_append)
  have n: "(st_trades s @ [t]) ! j = t" for t
    using assms(1) by (simp add: nth_append)
  show ?thesis
    unfolding direction_step_spec_def Let_def
    by (simp add: backtest_step_def Let_def a b n assms(2,3) [symmetric])
qed

lemma backtest_run_invariant:
  fixes C0 c p
  defines "s j \<equiv> foldl (backtest_step p c)
       \<lparr>st_portfolio = Some C0, st_position = 0, st_trades = [], st_daily_returns = []\<rparr>
       [1..<Suc j]"
  shows "length (st_trades (s j)) = j
       \<and> st_portfolio (s j) = capital_before C0 (st_trades (s j)) j
       \<and> st_position (s j) = held_before (st_trades (s j)) j
       \<and> (\<forall>k<j. direction_step_spec C0 c p (st_trades (s j)) k)"
proof (induction j)
  case 0
  show ?case by (simp add: s_def capital_before_def held_before_def)
next
  case (Suc j)
  have step: "s (Suc j) = backtest_step p c (s j) (Suc j)"
    by (simp add: s_def)
  from Suc have len: "length (st_trades (s j)) = j"
    and cap: "st_portfolio (s j) = capital_before C0 (st_trades (s j)) j"
    and held: "st_position (s j) = held_before (st_trades (s j)) j"
    and old: "\<forall>k<j. direction_step_spec C0 c p (st_trades (s j)) k"
    by blast+
  have new: "direction_step_spec C0 c p (st_trades (s (Suc j))) j"
    unfolding step by (rule backtest_step_spec [OF len cap held])
  have tr: "st_trades (s (Suc j)) = st_trades (s j) @ [last (st_trades (s (Suc j)))]"
    unfolding step by (simp add: backtest_step_trades)
  have l: "length (st_trades (s (Suc j))) = Suc j"
    unfolding step by (simp add: backtest_step_trades len)
  have "direction_step_spec C0 c p (st_trades (s (Suc j))) k" if "k < Suc j" for k
  proof (cases "k = j")
    case True
    with new show ?thesis by simp
  next
    case False
    with that have kj: "k < length (st_trades (s j))" by (simp add: len)
    show ?thesis
      using old kj len
      by (subst tr) (simp add: direction_step_spec_append)
  qed
  moreover have "st_portfolio (s (Suc j)) = capital_before C0 (st_trades (s (Suc j))) (Suc j)"
    unfolding step by (simp add: capital_before_def backtest_step_trades nth_snoc_at [OF len])
  moreover have "st_position (s (Suc j)) = held_before (st_trades (s (Suc j))) (Suc j)"
    unfolding step
    by (simp add: held_before_def backtest_step_trades nth_snoc_at [OF len] backtest_step_position)
  ultimately show ?case
    using l by blast
qed

lemma backtest_log_spec:
  assumes "k < length p - 1"
  shows "k < length (st_trades (BacktestEngine_backtest C0 p c))
       \<and> direction_step_spec C0 c p (st_trades (BacktestEngine_backtest C0 p c)) k"
  using backtest_run_invariant [of p c C0 "length p - 1"] assms
  unfolding BacktestEngine_backtest_def upt_one_length [of p] by simp

text \<open>
  Claim C2. In the direction-only backtest, for every input sequence and every cost rate
  \<open>c\<close>, at each step \<open>i \<ge> 1\<close>: the signal is \<open>1\<close> if \<open>predicted\<^sub>i > predicted\<^sub>i\<^sub>-\<^sub>1\<close> and \<open>0\<close>
  otherwise; when the held position differs from the signal the capital is reduced once by
  \<open>capital \<cdot> c\<close>; with the signal \<open>1\<close> the capital then grows by
  \<open>capital \<cdot> (actual\<^sub>i - actual\<^sub>i\<^sub>-\<^sub>1) / actual\<^sub>i\<^sub>-\<^sub>1\<close> and that ratio is the recorded return; with the
  signal \<open>0\<close> the recorded return is \<open>0\<close> and the capital changes by the flip cost only.
  Step \<open>i\<close> writes record \<open>k = i - 1\<close> of the trade log.
\<close>

theorem direction_backtest_steps:
  "\<forall>k < length predictions - 1.
      k < length (st_trades (BacktestEngine_backtest initial_capital predictions c))
      \<and> direction_step_spec initial_capital c predictions
            (st_trades (BacktestEngine_backtest initial_capital predictions c)) k"
  using backtest_log_spec by blast

theorem direction_backtest_steps_witness:
  "(1::nat) < length [\<lparr>Predicted = 1, Actual = 10, Date = 0\<rparr>,
                     \<lparr>Predicted = 2, Actual = 11, Date = 1\<rparr>,
                     \<lparr>Predicted = 1, Actual = 12, Date = 2\<rparr>] - 1
   \<and> direction_step_spec 1000 (1 / 1000)
         [\<lparr>Predicted = 1, Actual = 10, Date = 0\<rparr>,
          \<lparr>Predicted = 2, Actual = 11, Date = 1\<rparr>,
          \<lparr>Predicted = 1, Actual = 12, Date = 2\<rparr>]
         (st_trades (BacktestEngine_backtest 1000
            [\<lparr>Predicted = 1, Actual = 10, Date = 0\<rparr>,
             \<lparr>Predicted = 2, Actual = 11, Date = 1\<rparr>,
             \<lparr>Predicted = 1, Actual = 12, Date = 2\<rparr>] (1 / 1000))) 1"
  using direction_backtest_steps [of "[\<lparr>Predicted = 1, Actual = 10, Date = 0\<rparr>,
             \<lparr>Predicted = 2, Actual = 11, Date = 1\<rparr>,
             \<lparr>Predicted = 1, Actual = 12, Date = 2\<rparr>]" 1000 "1 / 1000"]
  by simp

text \<open>
  Claim C9 as stated (an input of \<open>n\<close> rows gives exactly \<open>n\<close> trade records) fails for
  two rows: the loop runs over \<open>range(1, len(predictions))\<close> and writes one record.
\<close>

theorem trade_count_counterexample:
  "length (st_trades (BacktestEngine_backtest 1000
      [\<lparr>Predicted = 1, Actual = 10, Date = 0\<rparr>, \<lparr>Predicted = 2, Actual = 11, Date = 1\<rparr>]
      (1 / 1000))) \<noteq> 2"
  unfolding BacktestEngine_backtest_def foldl_step_length by simp

text \<open>
  Claim C9, amended. For every input sequence of \<open>n\<close> rows the direction-only backtest
  appends exactly one trade record per step \<open>i = 1, \<dots>, n - 1\<close> of its loop: it produces
  exactly \<open>n - 1\<close> trade records, and none for \<open>n = 0\<close>.
\<close>

theorem trade_count:
  "length (st_trades (BacktestEngine_backtest initial_capital predictions c))
     = length predictions - 1"
  unfolding BacktestEngine_backtest_def foldl_step_length by simp

lemma growth_nonneg:
  fixes v a b :: real
  assumes "0 \<le> v" "0 < b" "0 < a"
  shows "0 \<le> v + v * ((a - b) / b)"
proof -
  have e: "(a - b) / b = a / b - 1"
    using assms(2) by (simp add: diff_divide_distrib)
  have "v + v * ((a - b) / b) = v + v * (a / b - 1)"
    by (simp only: e)
  also have "\<dots> = v * (a / b)"
    by (simp add: right_diff_distrib)
  finally have "v + v * ((a - b) / b) = v * (a / b)" .
  moreover have "0 \<le> v * (a / b)"
    using assms by simp
  ultimately show ?thesis by (simp only:)
qed

lemma charge_nonneg:
  fixes v c :: real
  assumes "0 \<le> v" "c < 1"
  shows "0 \<le> v - v * c"
proof -
  have "v - v * c = v * (1 - c)" by (simp add: algebra_simps)
  moreover have "0 \<le> v * (1 - c)" using assms by simp
  ultimately show ?thesis by simp
qed

lemma backtest_step_nonneg:
  assumes "st_portfolio s = Some v" "0 \<le> v"
    and "0 < Actual (p ! (i - 1))" "0 < Actual (p ! i)" "c < 1"
  shows "\<exists>w. st_portfolio (backtest_step p c s i) = Some w \<and> 0 \<le> w"
  using assms growth_nonneg [of v "Actual (p ! (i - 1))" "Actual (p ! i)"]
    growth_nonneg [of "v - v * c" "Actual (p ! (i - 1))" "Actual (p ! i)"]
    charge_nonneg [of v c]
  by (simp add: backtest_step_def Let_def fadd_def fsub_def fmul_def fdiv_def)

lemma foldl_step_nonneg:
  assumes "\<forall>j \<in> set js. 1 \<le> j \<and> j < length p"
    and "\<forall>r \<in> set p. 0 < Actual r" and "c < 1"
    and "\<exists>v. st_portfolio s = Some v \<and> 0 \<le> v"
    and "\<forall>t \<in> set (st_trades s). \<exists>v. t_portfolio t = Some v \<and> 0 \<le> v"
  shows "(\<exists>v. st_portfolio (foldl (backtest_step p c) s js) = Some v \<and> 0 \<le> v)
       \<and> (\<forall>t \<in> set (st_trades (foldl (backtest_step p c) s js)).
             \<exists>v. t_portfolio t = Some v \<and> 0 \<le> v)"
  using assms
proof (induction js arbitrary: s)
  case Nil
  then show ?case by simp
next
  case (Cons j js)
  from Cons.prems(1) have j: "1 \<le> j" "j < length p" by simp_all
  then have "p ! (j - 1) \<in> set p" "p ! j \<in> set p" by simp_all
  with Cons.prems(2) have pos: "0 < Actual (p ! (j - 1))" "0 < Actual (p ! j)" by blast+
  from Cons.prems(4) obtain v where v: "st_portfolio s = Some v" "0 \<le> v" by blast
  have one: "\<exists>w. st_portfolio (backtest_step p c s j) = Some w \<and> 0 \<le> w"
    by (rule backtest_step_nonneg [OF v pos Cons.prems(3)])
  have two: "\<forall>t \<in> set (st_trades (backtest_step p c s j)). \<exists>v. t_portfolio t = Some v \<and> 0 \<le> v"
    using Cons.prems(5) one by (subst backtest_step_trades) auto
  have "\<forall>j \<in> set js. 1 \<le> j \<and> j < length p"
    using Cons.prems(1) by simp
  from Cons.IH [OF this Cons.prems(2,3) one two] show ?case by simp
qed

text \<open>
  Claim C5. In the direction-only backtest, for every input whose actual prices are all
  strictly positive, every initial capital \<open>C\<^sub>0 > 0\<close> and every cost rate \<open>c\<close> in \<open>[0, 1)\<close>,
  the portfolio value is a (finite) non-negative number after every step: in every trade
  record and when the loop ends.
\<close>

theorem portfolio_nonneg:
  assumes "\<forall>r \<in> set predictions. 0 < Actual r"
    and "0 < initial_capital" and "0 \<le> c" and "c < 1"
  shows "(\<forall>t \<in> set (st_trades (BacktestEngine_backtest initial_capital predictions c)).
            \<exists>v. t_portfolio t = Some v \<and> 0 \<le> v)
       \<and> (\<exists>v. st_portfolio (BacktestEngine_backtest initial_capital predictions c) = Some v
              \<and> 0 \<le> v)"
proof -
  let ?init = "\<lparr>st_portfolio = Some initial_capital, st_position = 0, st_trades = [],
                 st_daily_returns = []\<rparr>"
  have "\<forall>j \<in> set [1..<length predictions]. 1 \<le> j \<and> j < length predictions"
    by simp
  moreover have "\<exists>v. st_portfolio ?init = Some v \<and> 0 \<le> v"
    using assms(2) by simp
  moreover have "\<forall>t \<in> set (st_trades ?init). \<exists>v. t_portfolio t = Some v \<and> 0 \<le> v"
    by simp
  ultimately show ?thesis
    unfolding BacktestEngine_backtest_def
    using foldl_step_nonneg [OF _ assms(1) assms(4), of "[1..<length predictions]" ?init]
    by blast
qed

theorem portfolio_nonneg_witness:
  "(0::real) < 1000 \<and> (0::real) \<le> 1 / 1000 \<and> (1 / 1000 :: real) < 1
   \<and> 0 < Actual \<lparr>Predicted = 1, Actual = 10, Date = 0\<rparr>
   \<and> 0 < Actual \<lparr>Predicted = 2, Actual = 11, Date = 1\<rparr>
   \<and> 0 < Actual \<lparr>Predicted = 1, Actual = 12, Date = 2\<rparr>
   \<and> (\<exists>v. st_portfolio (BacktestEngine_backtest 1000
            [\<lparr>Predicted = 1, Actual = 10, Date = 0\<rparr>,
             \<lparr>Predicted = 2, Actual = 11, Date = 1\<rparr>,
             \<lparr>Predicted = 1, Actual = 12, Date = 2\<rparr>] (1 / 1000)) = Some v \<and> 0 \<le> v)"
proof -
  let ?p = "[\<lparr>Predicted = 1, Actual = 10, Date = 0\<rparr>,
             \<lparr>Predicted = 2, Actual = 11, Date = 1\<rparr>,
             \<lparr>Predicted = 1, Actual = 12, Date = 2\<rparr>]"
  have h: "\<forall>r \<in> set ?p. 0 < Actual r" by simp
  have "(0::real) < 1000" "(0::real) \<le> 1 / 1000" "(1 / 1000 :: real) < 1" by simp_all
  from portfolio_nonneg [OF h this] show ?thesis by simp
qed


section \<open>Properties of the metrics calculator\<close>

lemma broadcast2_same: "broadcast2 f xs xs = Inr (map (\<lambda>x. f x x) xs)"
  by (simp add: broadcast2_def zip_same_conv_map)

lemma broadcast2_same_length:
  "length xs = length ys \<Longrightarrow> broadcast2 f xs ys = Inr (map2 f xs ys)"
  by (simp add: broadcast2_def)

lemma np_sum_Some: "np_sum (map (\<lambda>x. Some (f x)) xs) = Some (sum_list (map f xs))"
  by (induction xs) (simp_all add: np_sum_def fadd_def)

lemma np_mean_Some:
  "xs \<noteq> [] \<Longrightarrow>
     np_mean (map (\<lambda>x. Some (f x)) xs) = Some (sum_list (map f xs) / real (length xs))"
  by (simp add: np_mean_def np_sum_Some fdiv_def)

lemma np_mean_const:
  assumes "xs \<noteq> []"
  shows "np_mean (map (\<lambda>x. Some c) xs) = Some c"
proof -
  have "sum_list (map (\<lambda>x. c) xs) = real (length xs) * c"
    by (induction xs) (simp_all add: algebra_simps)
  then show ?thesis
    using assms by (simp add: np_mean_Some [OF assms])
qed

lemma np_diff_length: "length (np_diff xs) = length xs - 1"
  by (induction xs rule: np_diff.induct) simp_all

lemma sum_list_squares_pos:
  fixes f :: "'a \<Rightarrow> real"
  assumes "x \<in> set xs" "f x \<noteq> 0"
  shows "0 < sum_list (map (\<lambda>x. f x * f x) xs)"
  using assms
proof (induction xs)
  case Nil
  then show ?case by simp
next
  case (Cons y ys)
  have nn: "0 \<le> sum_list (map (\<lambda>x. f x * f x) ys)"
    by (rule sum_list_nonneg) auto
  show ?case
  proof (cases "x = y")
    case True
    then have "f y \<noteq> 0" using Cons.prems(2) by simp
    then have "f y < 0 \<or> 0 < f y" by linarith
    then have "0 < f y * f y" by (auto simp: zero_less_mult_iff)
    with nn show ?thesis by simp
  next
    case False
    with Cons have "0 < sum_list (map (\<lambda>x. f x * f x) ys)" by simp
    moreover have "0 \<le> f y * f y" by simp
    ultimately show ?thesis by (simp add: add_nonneg_pos)
  qed
qed

lemma perfect_ratio:
  assumes "\<forall>a \<in> set actual. a \<noteq> 0"
  shows "map2 (\<lambda>e a. fdiv (Some e) (Some \<bar>a\<bar>)) (map (\<lambda>a. 0) actual) actual
           = map (\<lambda>a. Some 0) actual"
  using assms by (induction actual) (simp_all add: fdiv_def)

lemma perfect_prediction_metrics:
  assumes "2 \<le> length actual" and "\<forall>a \<in> set actual. a \<noteq> 0"
    and "a \<in> set actual" "b \<in> set actual" "a \<noteq> b"
  shows "\<exists>m. calculate_prediction_metrics actual actual = Inr m
             \<and> R2 m = Some 1 \<and> MAPE m = Some 0 \<and> Direction_Accuracy m = Some 100"
proof -
  have ne: "actual \<noteq> []" using assms(1) by auto
  define mu where "mu = sum_list actual / real (length actual)"
  have mean: "np_mean (map Some actual) = Some mu"
    using np_mean_Some [OF ne, of "\<lambda>x. x"] by (simp add: mu_def)
  have err: "broadcast2 (\<lambda>a p. a - p) actual actual = Inr (map (\<lambda>a. 0) actual)"
    by (simp add: broadcast2_same)
  have ratio: "broadcast2 (\<lambda>e a. fdiv (Some e) (Some \<bar>a\<bar>)) (map (\<lambda>a. 0) actual) actual
                 = Inr (map (\<lambda>a. Some 0) actual)"
    by (simp add: broadcast2_same_length perfect_ratio [OF assms(2)])
  have same: "broadcast2 (\<lambda>x y. x = y) (map sgn (np_diff actual)) (map sgn (np_diff actual))
                = Inr (map (\<lambda>x. True) (np_diff actual))"
    by (simp add: broadcast2_same comp_def)
  have dne: "np_diff actual \<noteq> []"
    using assms(1) np_diff_length [of actual] by (cases "np_diff actual") simp_all
  have acc: "np_mean_bool (map (\<lambda>x. True) (np_diff actual)) = Some 1"
    using np_mean_const [OF dne, of 1] by (simp add: np_mean_bool_def comp_def)
  have mape: "np_mean (map (map_option abs) (map (\<lambda>a. Some 0) actual)) = Some 0"
    using np_mean_const [OF ne, of 0] by (simp add: comp_def)
  have res: "np_sum (map (\<lambda>e. Some (e * e)) (map (\<lambda>a. 0) actual)) = Some 0"
    using np_sum_Some [of "\<lambda>a. 0" actual] by (simp add: comp_def)
  have "a \<noteq> mu \<or> b \<noteq> mu" using assms(5) by auto
  then obtain x where x: "x \<in> set actual" "x - mu \<noteq> 0"
    using assms(3,4) by auto
  have tot: "np_sum (map (\<lambda>a. fmul (fsub (Some a) (Some mu)) (fsub (Some a) (Some mu))) actual)
               = Some (sum_list (map (\<lambda>a. (a - mu) * (a - mu)) actual))"
    using np_sum_Some [of "\<lambda>a. (a - mu) * (a - mu)" actual]
    by (simp add: fsub_def fmul_def)
  have pos: "0 < sum_list (map (\<lambda>a. (a - mu) * (a - mu)) actual)"
    using sum_list_squares_pos [of x actual "\<lambda>a. a - mu"] x by simp
  show ?thesis
    unfolding calculate_prediction_metrics_def err ratio same sum.case Let_def
    unfolding acc mape res mean
    unfolding tot
    using pos by (simp add: fmul_def fsub_def fdiv_def)
qed

text \<open>
  Claim C6. For every pair of equal-length arrays with at least two elements where
  \<open>predicted\<close> equals \<open>actual\<close> element-wise, every actual value is non-zero and the actual
  values are not all identical, the prediction metrics have \<open>R2 = 1\<close>, \<open>MAPE = 0\<close> and
  direction accuracy \<open>100\<close>.
\<close>

theorem perfect_predictor_metrics:
  assumes "2 \<le> length actual" and "predicted = actual"
    and "\<forall>a \<in> set actual. a \<noteq> 0"
    and "\<exists>a \<in> set actual. \<exists>b \<in> set actual. a \<noteq> b"
  shows "\<exists>m. calculate_prediction_metrics actual predicted = Inr m
             \<and> R2 m = Some 1 \<and> MAPE m = Some 0 \<and> Direction_Accuracy m = Some 100"
proof -
  from assms(4) obtain a b where "a \<in> set actual" "b \<in> set actual" "a \<noteq> b"
    by blast
  from perfect_prediction_metrics [OF assms(1,3) this] show ?thesis
    unfolding assms(2) .
qed

theorem perfect_predictor_metrics_witness:
  "2 \<le> length [100, 110, 121, 1089 / 10 :: real]
   \<and> (\<exists>m. calculate_prediction_metrics [100, 110, 121, 1089 / 10] [100, 110, 121, 1089 / 10] = Inr m
          \<and> R2 m = Some 1 \<and> MAPE m = Some 0 \<and> Direction_Accuracy m = Some 100)"
proof -
  let ?a = "[100, 110, 121, 1089 / 10 :: real]"
  have h: "2 \<le> length ?a" "?a = ?a" "\<forall>a \<in> set ?a. a \<noteq> 0"
    by simp_all
  have "\<exists>a \<in> set ?a. \<exists>b \<in> set ?a. a \<noteq> b"
    by (rule bexI [of _ 100], rule bexI [of _ 110]) simp_all
  from perfect_predictor_metrics [OF h this] show ?thesis by simp
qed

text \<open>
  Claim C8. Calling the financial-metrics function on an empty return series raises an
  error instead of returning \<open>NaN\<close> values: \<open>np.max\<close> rejects the empty drawdown array with
  \<open>ValueError\<close>, Python's exception for an argument of the right type and an unfit value.
\<close>

theorem financial_metrics_empty_raises:
  "calculate_financial_metrics [] risk_free_rate = Inl ValueError"
  by (simp add: calculate_financial_metrics_def np_cumprod_def maximum_accumulate_def np_max_def)








end
